theory Spec2Isabelle
  imports Main
begin

section \<open>Python strings\<close>

text \<open>
  A Python \<^verbatim>\<open>str\<close> is modelled as a HOL \<^typ>\<open>string\<close>: the character with code \<open>n\<close>
  stands for the code point \<open>n\<close>, so the model covers texts whose code points are below 256
  and \<^const>\<open>length\<close> is Python's \<^verbatim>\<open>len\<close>. An empty string is the only falsy string;
  where the source tests \<^verbatim>\<open>if t\<close> the model tests \<open>t \<noteq> []\<close>.
\<close>

definition py_isspace :: "char \<Rightarrow> bool" where
  \<comment> \<open>\<^verbatim>\<open>str.isspace\<close> and the class \<^verbatim>\<open>\s\<close> of \<^verbatim>\<open>re\<close> on code points below 256\<close>
  "py_isspace c =
     (let n = (of_char c :: nat)
      in (9 \<le> n \<and> n \<le> 13) \<or> (28 \<le> n \<and> n \<le> 32) \<or> n = 133 \<or> n = 160)"

definition xml_isspace :: "char \<Rightarrow> bool" where
  \<comment> \<open>the white space of XML and XPath: space, tab, line feed, carriage return\<close>
  "xml_isspace c = (let n = (of_char c :: nat) in n = 32 \<or> n = 9 \<or> n = 10 \<or> n = 13)"

definition strip_with :: "(char \<Rightarrow> bool) \<Rightarrow> string \<Rightarrow> string" where
  "strip_with sp s = rev (dropWhile sp (rev (dropWhile sp s)))"

definition py_strip :: "string \<Rightarrow> string" where
  \<comment> \<open>\<^verbatim>\<open>s.strip()\<close>\<close>
  "py_strip s = strip_with py_isspace s"

fun sub_spaces :: "(char \<Rightarrow> bool) \<Rightarrow> bool \<Rightarrow> string \<Rightarrow> string" where
  \<comment> \<open>every maximal run of white space becomes one space; the flag says that the
     previous character was white space\<close>
  "sub_spaces sp prev [] = []"
| "sub_spaces sp prev (c # cs) =
     (if sp c then (if prev then sub_spaces sp True cs else CHR '' '' # sub_spaces sp True cs)
      else c # sub_spaces sp False cs)"

definition re_sub_spaces :: "string \<Rightarrow> string" where
  \<comment> \<open>\<^verbatim>\<open>re.sub(r"\s+", " ", t)\<close>\<close>
  "re_sub_spaces t = sub_spaces py_isspace False t"

definition normalize_space :: "string \<Rightarrow> string" where
  \<comment> \<open>XPath \<^verbatim>\<open>normalize-space\<close>\<close>
  "normalize_space s = strip_with xml_isspace (sub_spaces xml_isspace False s)"

fun py_join :: "string \<Rightarrow> string list \<Rightarrow> string" where
  \<comment> \<open>\<^verbatim>\<open>sep.join(parts)\<close>\<close>
  "py_join sep [] = []"
| "py_join sep [x] = x"
| "py_join sep (x # y # ys) = x @ sep @ py_join sep (y # ys)"

fun startswith :: "string \<Rightarrow> string \<Rightarrow> bool" where
  "startswith s [] = True"
| "startswith [] (p # ps) = False"
| "startswith (c # cs) (p # ps) = (c = p \<and> startswith cs ps)"

fun py_in :: "string \<Rightarrow> string \<Rightarrow> bool" where
  \<comment> \<open>\<^verbatim>\<open>sub in s\<close> for strings\<close>
  "py_in sub [] = (sub = [])"
| "py_in sub (c # cs) = (startswith (c # cs) sub \<or> py_in sub cs)"

definition py_lower_char :: "char \<Rightarrow> char" where
  "py_lower_char c =
     (let n = (of_char c :: nat)
      in if (65 \<le> n \<and> n \<le> 90) \<or> (192 \<le> n \<and> n \<le> 222 \<and> n \<noteq> 215)
         then char_of (n + 32) else c)"

definition py_lower :: "string \<Rightarrow> string" where
  \<comment> \<open>\<^verbatim>\<open>s.lower()\<close>\<close>
  "py_lower s = map py_lower_char s"

text \<open>
  What ends a call without a value: an exception that no handler of the program catches,
  and \<^verbatim>\<open>sys.exit\<close>.
\<close>

datatype error = Uncaught | SystemExit

section \<open>rss_parser.py\<close>

subsection \<open>The two patterns\<close>

definition py_isdigit :: "char \<Rightarrow> bool" where
  \<comment> \<open>the class \<^verbatim>\<open>\d\<close> on code points below 256\<close>
  "py_isdigit c = (let n = (of_char c :: nat) in 48 \<le> n \<and> n \<le> 57)"

definition py_isword :: "char \<Rightarrow> bool" where
  \<comment> \<open>the class \<^verbatim>\<open>\w\<close> on code points below 256: letters, digits, other numeric
     characters and the underscore\<close>
  "py_isword c =
     (let n = (of_char c :: nat)
      in (48 \<le> n \<and> n \<le> 57) \<or> (65 \<le> n \<and> n \<le> 90) \<or> n = 95 \<or> (97 \<le> n \<and> n \<le> 122) \<or>
         n = 170 \<or> n = 178 \<or> n = 179 \<or> n = 181 \<or> n = 185 \<or> n = 186 \<or>
         (188 \<le> n \<and> n \<le> 190) \<or> (192 \<le> n \<and> n \<le> 214) \<or> (216 \<le> n \<and> n \<le> 246) \<or>
         (248 \<le> n \<and> n \<le> 255))"

definition is_ascii_alnum :: "char \<Rightarrow> bool" where
  \<comment> \<open>the class \<^verbatim>\<open>[0-9A-Za-z]\<close>, with or without \<^verbatim>\<open>re.IGNORECASE\<close>\<close>
  "is_ascii_alnum c =
     (let n = (of_char c :: nat)
      in (48 \<le> n \<and> n \<le> 57) \<or> (65 \<le> n \<and> n \<le> 90) \<or> (97 \<le> n \<and> n \<le> 122))"

definition doi_char :: "char \<Rightarrow> bool" where
  \<comment> \<open>the class \<^verbatim>\<open>[^\s"'<>]\<close>\<close>
  "doi_char c =
     (\<not> py_isspace c \<and> c \<noteq> CHR 0x22 \<and> c \<noteq> CHR 0x27 \<and> c \<noteq> CHR ''<'' \<and> c \<noteq> CHR ''>'')"

definition word_boundary :: "char option \<Rightarrow> char option \<Rightarrow> bool" where
  \<comment> \<open>\<^verbatim>\<open>\b\<close> between two neighbouring positions; \<open>None\<close> is an end of the string\<close>
  "word_boundary left right =
     ((case left of None \<Rightarrow> False | Some c \<Rightarrow> py_isword c) \<noteq>
      (case right of None \<Rightarrow> False | Some c \<Rightarrow> py_isword c))"

definition char_at :: "string \<Rightarrow> nat \<Rightarrow> char option" where
  "char_at s i = (if i < length s then Some (s ! i) else None)"

text \<open>
  \<^verbatim>\<open>DOI_PATTERN = \b(10\.\d{4,}/[^\s"'<>]+)\b\<close> tried at one position: \<open>prev\<close> is the
  character in front of it. Both repetitions are greedy. After the digits the pattern wants
  a slash, so only the whole run of digits can be followed by one. The last repetition
  gives characters back until a word boundary follows it: the ends are tried from the
  longest to the shortest. The result is group 1.
\<close>

definition doi_match_here :: "char option \<Rightarrow> string \<Rightarrow> string option" where
  "doi_match_here prev s =
     (if word_boundary prev (char_at s 0) \<and> startswith s ''10.''
      then
        (let digits = takeWhile py_isdigit (drop 3 s);
             after_digits = dropWhile py_isdigit (drop 3 s)
         in if 4 \<le> length digits \<and> startswith after_digits ''/''
            then
              (let tail = drop 1 after_digits;
                   n = length (takeWhile doi_char tail);
                   ends = [k \<leftarrow> rev [1..<Suc n].
                             word_boundary (char_at tail (k - 1)) (char_at tail k)]
               in case ends of
                    [] \<Rightarrow> None
                  | k # _ \<Rightarrow> Some (''10.'' @ digits @ ''/'' @ take k tail))
            else None)
      else None)"

fun doi_search :: "char option \<Rightarrow> string \<Rightarrow> string option" where
  \<comment> \<open>\<^verbatim>\<open>DOI_PATTERN.search\<close>: the match at the leftmost position that has one\<close>
  "doi_search prev [] = doi_match_here prev []"
| "doi_search prev (c # cs) =
     (case doi_match_here prev (c # cs) of
        Some m \<Rightarrow> Some m
      | None \<Rightarrow> doi_search (Some c) cs)"

text \<open>
  \<^verbatim>\<open>PII_PATTERN = /science/article(?:/abs)?/pii/(S[0-9A-Za-z]+)\<close> with
  \<^verbatim>\<open>re.IGNORECASE\<close>: below code point 256 only the two cases of an ASCII letter match
  each other, so the literal parts are compared after lowering the text.
\<close>

definition pii_group :: "string \<Rightarrow> string option" where
  \<comment> \<open>\<^verbatim>\<open>/pii/(S[0-9A-Za-z]+)\<close> at the head of \<open>s\<close>\<close>
  "pii_group s =
     (if startswith (py_lower s) ''/pii/s''
      then (let run = takeWhile is_ascii_alnum (drop 6 s)
            in if run \<noteq> [] then Some (take 1 (drop 5 s) @ run) else None)
      else None)"

definition pii_match_here :: "string \<Rightarrow> string option" where
  "pii_match_here s =
     (if startswith (py_lower s) ''/science/article''
      then
        (let rest = drop 16 s;
             with_abs = (if startswith (py_lower rest) ''/abs'' then pii_group (drop 4 rest)
                         else None)
         in case with_abs of Some m \<Rightarrow> Some m | None \<Rightarrow> pii_group rest)
      else None)"

fun pii_search :: "string \<Rightarrow> string option" where
  "pii_search [] = None"
| "pii_search (c # cs) =
     (case pii_match_here (c # cs) of Some m \<Rightarrow> Some m | None \<Rightarrow> pii_search cs)"

subsection \<open>Items and entries\<close>

record RSSItem =
  title :: string
  link :: string
  doi :: "string option"
  pii :: "string option"
  description :: string

definition truthy :: "string option \<Rightarrow> bool" where
  \<comment> \<open>the truth value of a \<^verbatim>\<open>str | None\<close>\<close>
  "truthy v = (case v of None \<Rightarrow> False | Some s \<Rightarrow> s \<noteq> [])"

definition article_id :: "RSSItem \<Rightarrow> (string \<times> string) option" where
  "article_id self =
     (if truthy (doi self) then Some (''doi'', the (doi self))
      else if truthy (pii self) then Some (''pii'', the (pii self))
      else None)"

definition extract_pii :: "string \<Rightarrow> string option" where
  "extract_pii url = pii_search url"

definition py_rstrip :: "string \<Rightarrow> string \<Rightarrow> string" where
  \<comment> \<open>\<^verbatim>\<open>s.rstrip(chars)\<close>\<close>
  "py_rstrip chars s = rev (dropWhile (\<lambda>c. c \<in> set chars) (rev s))"

definition extract_doi_from_text :: "string \<Rightarrow> string option" where
  "extract_doi_from_text t = map_option (py_rstrip ''.,;'') (doi_search None t)"

text \<open>
  A feed entry is a dictionary; the fields the parser reads hold strings, so an entry is a
  map from field names to strings, and a missing field gives \<^verbatim>\<open>None\<close>. With string
  values \<^verbatim>\<open>isinstance(dc_id, str)\<close> holds and \<^verbatim>\<open>hasattr(description, "get")\<close> does not.
\<close>

type_synonym entry = "string \<rightharpoonup> string"

definition get_or_empty :: "entry \<Rightarrow> string \<Rightarrow> string" where
  \<comment> \<open>\<^verbatim>\<open>entry.get(key, "")\<close>, and \<^verbatim>\<open>entry.get(key) or ""\<close>\<close>
  "get_or_empty e key = (case e key of None \<Rightarrow> [] | Some v \<Rightarrow> v)"

definition py_or :: "string \<Rightarrow> string \<Rightarrow> string" where
  \<comment> \<open>\<^verbatim>\<open>a or b\<close> on strings\<close>
  "py_or a b = (if a \<noteq> [] then a else b)"

definition opt_or :: "string option \<Rightarrow> string option \<Rightarrow> string option" where
  \<comment> \<open>\<^verbatim>\<open>a or b\<close> on \<^verbatim>\<open>str | None\<close>\<close>
  "opt_or a b = (if truthy a then a else b)"

fun first_doi :: "string list \<Rightarrow> string option" where
  \<comment> \<open>\<^verbatim>\<open>for raw in ...: d = _extract_doi_from_text(raw); if d: return d\<close>; \<open>None\<close> when
     the loop ends\<close>
  "first_doi [] = None"
| "first_doi (raw # raws) =
     (let d = extract_doi_from_text raw in if truthy d then d else first_doi raws)"

definition extract_doi :: "entry \<Rightarrow> string option" where
  "extract_doi e =
     (let link = py_or (get_or_empty e ''link'') [];
          desc = py_or (py_or (get_or_empty e ''description'') (get_or_empty e ''summary'')) []
      in case first_doi [link, desc] of
           Some d \<Rightarrow> Some d
         | None \<Rightarrow>
             (let dc_id = py_or (get_or_empty e ''dc_identifier'') (get_or_empty e ''prism_doi'')
              in if py_strip dc_id \<noteq> []
                 then opt_or (extract_doi_from_text dc_id) (Some (py_strip dc_id))
                 else None))"

fun parse_entries :: "entry list \<Rightarrow> RSSItem list" where
  \<comment> \<open>the loop of \<^verbatim>\<open>parse_feed_content\<close> over the parsed entries\<close>
  "parse_entries [] = []"
| "parse_entries (e # es) =
     (let link0 = py_strip (get_or_empty e ''link'')
      in if link0 = [] then parse_entries es
         else
           (let title0 = py_strip (get_or_empty e ''title'');
                description0 =
                  py_strip (py_or (py_or (py_or (get_or_empty e ''description'')
                                            (get_or_empty e ''summary'')) []) []);
                pii0 = extract_pii link0;
                doi0 = opt_or (extract_doi e)
                              (extract_doi_from_text (link0 @ '' '' @ description0))
            in \<lparr>title = title0, link = link0, doi = doi0, pii = pii0,
                 description = description0\<rparr> # parse_entries es))"

definition parse_feed_content :: "(string \<Rightarrow> entry list) \<Rightarrow> string \<Rightarrow> RSSItem list" where
  \<comment> \<open>\<open>feedparser_entries\<close> is \<^verbatim>\<open>feedparser.parse(content, ...).get("entries", [])\<close>\<close>
  "parse_feed_content feedparser_entries content = parse_entries (feedparser_entries content)"

section \<open>article_fetcher.py\<close>

record Config =
  ELSEVIER_API_KEY :: string
  ELSEVIER_ARTICLE_BASE :: string
  SCIENCE_DIRECT_COOKIE :: string
  REQUEST_TIMEOUT :: int

record FetchedArticle =
  fetched_source :: string
  raw_body :: string
  content_type :: string
  item :: RSSItem

text \<open>
  \<^verbatim>\<open>requests.get\<close> is the network: a parameter that answers a request with a response or
  raises a \<^verbatim>\<open>RequestException\<close>. The requests sent are logged in the order they are
  made; the log is the state the fetch functions pass on.
\<close>

record request =
  req_url :: string
  req_headers :: "(string \<times> string) list"
  req_params :: "(string \<times> string) list"
  req_timeout :: int

datatype http_outcome =
  RequestException
| Response (status_code: nat) (content_type_header: "string option") (resp_text: string)

type_synonym network = "request \<Rightarrow> http_outcome"

definition USER_AGENT :: string where
  "USER_AGENT = ''SDRSS/1.0 (ScienceDirect RSS full-text fetcher; +https://github.com/sdrss)''"

definition raises_for_status :: "nat \<Rightarrow> bool" where
  \<comment> \<open>\<^verbatim>\<open>resp.raise_for_status()\<close> raises on a client or server error status\<close>
  "raises_for_status st = (400 \<le> st \<and> st < 600)"

definition header_mime :: "string option \<Rightarrow> string" where
  \<comment> \<open>\<^verbatim>\<open>resp.headers.get("Content-Type", "").split(";")[0].strip()\<close>\<close>
  "header_mime h =
     py_strip (takeWhile (\<lambda>c. c \<noteq> CHR '';'') (case h of None \<Rightarrow> [] | Some v \<Rightarrow> v))"

definition opt_str_or :: "string option \<Rightarrow> string \<Rightarrow> string" where
  \<comment> \<open>\<^verbatim>\<open>a or b\<close> with \<open>a\<close> a \<^verbatim>\<open>str | None\<close> and \<open>b\<close> a string\<close>
  "opt_str_or a b = (case a of None \<Rightarrow> b | Some s \<Rightarrow> if s \<noteq> [] then s else b)"

definition api_request :: "Config \<Rightarrow> string \<Rightarrow> string \<times> string \<Rightarrow> int \<Rightarrow> string \<Rightarrow> request" where
  \<comment> \<open>the request of \<^verbatim>\<open>fetch_via_api\<close>: \<^verbatim>\<open>url\<close>, \<^verbatim>\<open>headers\<close>, \<^verbatim>\<open>params\<close>\<close>
  "api_request cfg key aid timeout accept =
     \<lparr>req_url = ELSEVIER_ARTICLE_BASE cfg @ ''/'' @ fst aid @ ''/'' @ snd aid,
      req_headers = [(''X-ELS-APIKey'', key), (''User-Agent'', USER_AGENT), (''Accept'', accept)],
      req_params = [(''httpAccept'', accept)],
      req_timeout = timeout\<rparr>"

definition crawl_request :: "Config \<Rightarrow> RSSItem \<Rightarrow> string option \<Rightarrow> int \<Rightarrow> request" where
  \<comment> \<open>the request of \<^verbatim>\<open>fetch_via_crawl\<close>\<close>
  "crawl_request cfg it cookie timeout =
     (let cookie0 = py_strip (opt_str_or cookie (SCIENCE_DIRECT_COOKIE cfg))
      in \<lparr>req_url = link it,
          req_headers = [(''User-Agent'', USER_AGENT),
                         (''Accept'', ''text/html,application/xhtml+xml'')] @
                        (if cookie0 \<noteq> [] then [(''Cookie'', cookie0)] else []),
          req_params = [],
          req_timeout = timeout\<rparr>)"

definition fetch_via_api ::
  "Config \<Rightarrow> network \<Rightarrow> RSSItem \<Rightarrow> string option \<Rightarrow> int \<Rightarrow> string \<Rightarrow> request list
     \<Rightarrow> FetchedArticle option \<times> request list" where
  "fetch_via_api cfg requests_get it api_key timeout accept log =
     (let key = py_strip (opt_str_or api_key (ELSEVIER_API_KEY cfg))
      in if key = [] then (None, log)
         else
           (case article_id it of
              None \<Rightarrow> (None, log)
            | Some aid \<Rightarrow>
                (let req = api_request cfg key aid timeout accept
                 in case requests_get req of
                      RequestException \<Rightarrow> (None, log @ [req])
                    | Response st h body \<Rightarrow>
                        if raises_for_status st then (None, log @ [req])
                        else (Some \<lparr>fetched_source = ''api'', raw_body = body,
                                     content_type = py_or (header_mime h) accept, item = it\<rparr>,
                              log @ [req]))))"

definition fetch_via_crawl ::
  "Config \<Rightarrow> network \<Rightarrow> RSSItem \<Rightarrow> string option \<Rightarrow> int \<Rightarrow> request list
     \<Rightarrow> FetchedArticle option \<times> request list" where
  "fetch_via_crawl cfg requests_get it cookie timeout log =
     (let req = crawl_request cfg it cookie timeout
      in case requests_get req of
           RequestException \<Rightarrow> (None, log @ [req])
         | Response st h body \<Rightarrow>
             if raises_for_status st then (None, log @ [req])
             else (Some \<lparr>fetched_source = ''crawl'', raw_body = body,
                          content_type = py_or (header_mime h) ''text/html'', item = it\<rparr>,
                   log @ [req]))"

definition fetch_article ::
  "Config \<Rightarrow> network \<Rightarrow> RSSItem \<Rightarrow> bool \<Rightarrow> string option \<Rightarrow> string option \<Rightarrow> int
     \<Rightarrow> request list \<Rightarrow> FetchedArticle option \<times> request list" where
  "fetch_article cfg requests_get it prefer_api api_key cookie timeout log =
     (if prefer_api
      then
        (case fetch_via_api cfg requests_get it api_key timeout ''application/xml'' log of
           (Some result, log1) \<Rightarrow> (Some result, log1)
         | (None, log1) \<Rightarrow> fetch_via_crawl cfg requests_get it cookie timeout log1)
      else fetch_via_crawl cfg requests_get it cookie timeout log)"

section \<open>content_extractor.py\<close>

record ExtractedContent =
  abstract :: string
  full_text :: string
  source :: string

subsection \<open>Element trees\<close>

text \<open>
  An element as both XML libraries hand it out: a namespace URI (empty when the element
  has none), a local name, the text before the first child, the children, and the tail
  (the text after the end tag). A missing text or tail is the empty string: the source
  only ever tests them for truth or takes \<^verbatim>\<open>el.text or ""\<close>.
\<close>

datatype elem =
  Elem (el_ns: string) (el_local: string) (el_text: string) (el_children: "elem list")
    (el_tail: string)

definition el_tag :: "elem \<Rightarrow> string" where
  \<comment> \<open>\<^verbatim>\<open>el.tag\<close>: the local name, after the URI in braces when there is one\<close>
  "el_tag el = (if el_ns el = [] then el_local el else ''{'' @ el_ns el @ ''}'' @ el_local el)"

fun iter :: "elem \<Rightarrow> elem list" where
  \<comment> \<open>\<^verbatim>\<open>el.iter()\<close>: the element and its descendants in document order\<close>
  "iter (Elem u n t cs tail) = Elem u n t cs tail # concat (map iter cs)"

definition strip_ns :: "string \<Rightarrow> string" where
  "strip_ns tag =
     (if tag \<noteq> [] \<and> CHR ''}'' \<in> set tag
      then tl (dropWhile (\<lambda>c. c \<noteq> CHR ''}'') tag)
      else tag)"

fun collect_text :: "elem \<Rightarrow> string list" where
  \<comment> \<open>the strings that \<^verbatim>\<open>_collect_text(el, buf)\<close> appends to \<open>buf\<close>\<close>
  "collect_text (Elem u n t cs tail) =
     (if t \<noteq> [] then [t] else []) @
     concat (map (\<lambda>child. collect_text child @
                   (if el_tail child \<noteq> [] then [el_tail child] else [])) cs)"

definition find_all_with_tag :: "elem \<Rightarrow> string \<Rightarrow> elem list" where
  "find_all_with_tag parent local_name =
     [el \<leftarrow> iter parent. strip_ns (el_tag el) = local_name]"

definition text_of :: "elem \<Rightarrow> string" where
  "text_of el = py_strip (py_join '' '' (collect_text el))"

fun append_abstracts :: "string list \<Rightarrow> string list \<Rightarrow> string list" where
  \<comment> \<open>the loop body \<^verbatim>\<open>if t and len(t) > 20 and t not in abstract_parts:
     abstract_parts.append(t)\<close> run over the texts \<open>ts\<close>\<close>
  "append_abstracts abstract_parts [] = abstract_parts"
| "append_abstracts abstract_parts (t # ts) =
     append_abstracts
       (if t \<noteq> [] \<and> 20 < length t \<and> t \<notin> set abstract_parts
        then abstract_parts @ [t] else abstract_parts) ts"

definition join_parts :: "string list \<Rightarrow> string" where
  \<comment> \<open>\<^verbatim>\<open>"\n\n".join(parts) if parts else ""\<close>\<close>
  "join_parts parts = (if parts \<noteq> [] then py_join ''\<newline>\<newline>'' parts else [])"

definition keep_longer :: "nat \<Rightarrow> string list \<Rightarrow> string list" where
  \<comment> \<open>the loop body \<^verbatim>\<open>if t and len(t) > n: body_parts.append(t)\<close> run over the texts\<close>
  "keep_longer n ts = [t \<leftarrow> ts. t \<noteq> [] \<and> n < length t]"

subsection \<open>The parsers\<close>

text \<open>
  \<^verbatim>\<open>ET.fromstring\<close> and \<^verbatim>\<open>etree.fromstring\<close> belong to libraries; the extractors take
  them as parameters. A parser returns the root element, raises the library's parse error,
  or raises something else.
\<close>

datatype parse_outcome = Parsed elem | ParseError | OtherException

type_synonym parser = "string \<Rightarrow> parse_outcome"


subsection \<open>extract_from_api_xml\<close>

definition xml_abstract_parts :: "elem \<Rightarrow> string list" where
  "xml_abstract_parts root =
     (let abstract_parts =
            fold (\<lambda>name abstract_parts.
                    append_abstracts abstract_parts (map text_of (find_all_with_tag root name)))
              [''description'', ''abstract''] []
      in if abstract_parts \<noteq> [] then take 3 abstract_parts else abstract_parts)"

definition xml_body_el :: "elem \<Rightarrow> elem option" where
  \<comment> \<open>the first element of \<^verbatim>\<open>root.iter()\<close> whose stripped tag is \<^verbatim>\<open>body\<close>\<close>
  "xml_body_el root = List.find (\<lambda>el. strip_ns (el_tag el) = ''body'') (iter root)"

definition xml_body_parts :: "elem \<Rightarrow> string list" where
  "xml_body_parts root =
     (let body_parts =
            (case xml_body_el root of
               None \<Rightarrow> []
             | Some body_el \<Rightarrow>
                 concat (map (\<lambda>tag. keep_longer 30 (map text_of (find_all_with_tag body_el tag)))
                           [''section'', ''para'', ''p'']))
      in if body_parts = []
         then keep_longer 50 (map text_of (find_all_with_tag root ''para''))
         else body_parts)"

definition extract_xml_root :: "elem \<Rightarrow> ExtractedContent" where
  \<comment> \<open>\<^verbatim>\<open>extract_from_api_xml\<close> after the parse\<close>
  "extract_xml_root root =
     (let abstract_parts = xml_abstract_parts root;
          body_parts = xml_body_parts root;
          abstract0 = join_parts abstract_parts;
          full_text0 = join_parts body_parts
      in if full_text0 = [] \<and> 200 < length abstract0
         then \<lparr>abstract = (if 500 < length abstract0 then take 500 abstract0 @ ''...''
                           else abstract0),
               full_text = abstract0, source = ''api''\<rparr>
         else \<lparr>abstract = abstract0, full_text = full_text0, source = ''api''\<rparr>)"

definition extract_from_api_xml :: "parser \<Rightarrow> string \<Rightarrow> error + ExtractedContent" where
  "extract_from_api_xml et_fromstring raw =
     (case et_fromstring raw of
        ParseError \<Rightarrow> Inr \<lparr>abstract = [], full_text = [], source = ''api''\<rparr>
      | OtherException \<Rightarrow> Inl Uncaught
      | Parsed root \<Rightarrow> Inr (extract_xml_root root))"

subsection \<open>extract_from_api_xml_lxml\<close>

text \<open>
  The inner function \<^verbatim>\<open>xpath_text\<close> of the source is never called and has no
  counterpart here. The XPath queries return elements only, in document order.
\<close>

fun itertext :: "elem \<Rightarrow> string list" where
  \<comment> \<open>\<^verbatim>\<open>el.itertext()\<close>: the texts inside the element in document order, without its
     own tail\<close>
  "itertext (Elem u n t cs tail) =
     (if t \<noteq> [] then [t] else []) @
     concat (map (\<lambda>child. itertext child @
                   (if el_tail child \<noteq> [] then [el_tail child] else [])) cs)"

definition xpath_local_name_long :: "elem \<Rightarrow> string \<Rightarrow> elem list" where
  \<comment> \<open>\<^verbatim>\<open>root.xpath("//*[local-name()='NAME' and string-length(normalize-space(.))>20]")\<close>:
     the string value of an element is the concatenation of the texts inside it\<close>
  "xpath_local_name_long root name =
     [el \<leftarrow> iter root. el_local el = name \<and> 20 < length (normalize_space (concat (itertext el)))]"

definition lxml_text :: "elem \<Rightarrow> string" where
  \<comment> \<open>\<^verbatim>\<open>t = (el.text or "") + "".join(el.itertext()); t = re.sub(r"\s+", " ", t).strip()\<close>\<close>
  "lxml_text el = py_strip (re_sub_spaces (el_text el @ concat (itertext el)))"

definition lxml_abstract_parts :: "elem \<Rightarrow> string list" where
  "lxml_abstract_parts root =
     take 3
       (fold (\<lambda>name abstract_parts.
                append_abstracts abstract_parts (map lxml_text (xpath_local_name_long root name)))
          [''description'', ''abstract''] [])"

definition lxml_body_parts :: "elem \<Rightarrow> string list" where
  "lxml_body_parts root =
     (let body = [el \<leftarrow> iter root. el_local el = ''body''];
          body_parts =
            (case body of
               [] \<Rightarrow> []
             | body0 # _ \<Rightarrow>
                 keep_longer 30
                   (map lxml_text
                      [el \<leftarrow> concat (map iter (el_children body0)).
                         el_local el = ''para'' \<or> el_local el = ''section'']))
      in if body_parts = []
         then keep_longer 50 (map lxml_text [el \<leftarrow> iter root. el_local el = ''para''])
         else body_parts)"

definition extract_lxml_root :: "elem \<Rightarrow> ExtractedContent" where
  \<comment> \<open>\<^verbatim>\<open>extract_from_api_xml_lxml\<close> after the parse\<close>
  "extract_lxml_root root =
     (let abstract_parts = lxml_abstract_parts root;
          body_parts = lxml_body_parts root;
          abstract0 = join_parts abstract_parts;
          full_text0 = join_parts body_parts
      in \<lparr>abstract = abstract0,
          full_text = (if full_text0 = [] \<and> 200 < length abstract0 then abstract0 else full_text0),
          source = ''api''\<rparr>)"

definition extract_from_api_xml_lxml :: "parser \<Rightarrow> parser \<Rightarrow> string \<Rightarrow> error + ExtractedContent" where
  "extract_from_api_xml_lxml lxml_fromstring et_fromstring raw =
     (case lxml_fromstring raw of
        Parsed root \<Rightarrow> Inr (extract_lxml_root root)
      | _ \<Rightarrow> extract_from_api_xml et_fromstring raw)"

subsection \<open>extract_from_html\<close>

text \<open>
  The tree that \<^verbatim>\<open>BeautifulSoup(raw_body, "lxml")\<close> builds: a tag has a name, the tokens
  of its \<^verbatim>\<open>class\<close> attribute, its other attributes and its contents; a string node holds
  text. The soup object itself is a tag around the whole document.
\<close>

datatype node =
  Tag (tag_name: string) (tag_classes: "string list") (tag_attrs: "(string \<times> string) list")
    (tag_contents: "node list")
| NavigableString string

fun tags_in :: "node \<Rightarrow> node list" where
  \<comment> \<open>a tag and the tags below it, in document order\<close>
  "tags_in (Tag n cls attrs cs) = Tag n cls attrs cs # concat (map tags_in cs)"
| "tags_in (NavigableString s) = []"

fun descendants :: "node \<Rightarrow> node list" where
  \<comment> \<open>the tags below a tag, in document order\<close>
  "descendants (Tag n cls attrs cs) = concat (map tags_in cs)"
| "descendants (NavigableString s) = []"

fun strings_of :: "node \<Rightarrow> string list" where
  \<comment> \<open>the string nodes below a node, in document order\<close>
  "strings_of (NavigableString s) = [s]"
| "strings_of (Tag n cls attrs cs) = concat (map strings_of cs)"

definition get_text :: "node \<Rightarrow> string" where
  \<comment> \<open>\<^verbatim>\<open>el.get_text(separator=" ", strip=True)\<close>: the stripped strings that are not
     empty, joined by the separator\<close>
  "get_text el = py_join '' '' [t \<leftarrow> map py_strip (strings_of el). t \<noteq> []]"

datatype selector =
  ClassContains string  \<comment> \<open>\<^verbatim>\<open>[class*='x']\<close>\<close>
| HasClass string  \<comment> \<open>\<^verbatim>\<open>.x\<close>\<close>
| HasAttr string  \<comment> \<open>\<^verbatim>\<open>[x]\<close>\<close>
| TagWithClass string string  \<comment> \<open>\<^verbatim>\<open>tag.x\<close>\<close>
| HasId string  \<comment> \<open>\<^verbatim>\<open>#x\<close>\<close>

fun matches :: "selector \<Rightarrow> node \<Rightarrow> bool" where
  "matches sel (NavigableString s) = False"
| "matches (ClassContains x) (Tag n cls attrs cs) = py_in x (py_join '' '' cls)"
| "matches (HasClass x) (Tag n cls attrs cs) = (x \<in> set cls)"
| "matches (HasAttr x) (Tag n cls attrs cs) = (map_of attrs x \<noteq> None)"
| "matches (TagWithClass t x) (Tag n cls attrs cs) = (n = t \<and> x \<in> set cls)"
| "matches (HasId x) (Tag n cls attrs cs) = (map_of attrs ''id'' = Some x)"

definition select :: "node \<Rightarrow> selector \<Rightarrow> node list" where
  \<comment> \<open>\<^verbatim>\<open>soup.select(sel)\<close>: the matching tags in document order\<close>
  "select soup sel = [el \<leftarrow> descendants soup. matches sel el]"

definition find_all :: "node \<Rightarrow> string list \<Rightarrow> node list" where
  \<comment> \<open>\<^verbatim>\<open>el.find_all(names, recursive=True)\<close>\<close>
  "find_all el names = [p \<leftarrow> descendants el. tag_name p \<in> set names]"

fun find_all_children :: "node \<Rightarrow> string list \<Rightarrow> node list" where
  \<comment> \<open>\<^verbatim>\<open>el.find_all(names, recursive=False)\<close>\<close>
  "find_all_children (Tag n cls attrs cs) names =
     [p \<leftarrow> cs. (case p of Tag m _ _ _ \<Rightarrow> m \<in> set names | NavigableString _ \<Rightarrow> False)]"
| "find_all_children (NavigableString s) names = []"

definition abstract_selectors :: "selector list" where
  "abstract_selectors =
     [ClassContains ''abstract'', HasClass ''abstract'', HasAttr ''data-abstract'',
      TagWithClass ''div'' ''abstract-group'']"

definition body_selectors :: "selector list" where
  "body_selectors =
     [HasClass ''body'', ClassContains ''article-body'', ClassContains ''Body'',
      TagWithClass ''div'' ''article-body'', TagWithClass ''section'' ''body'', HasId ''body'',
      HasClass ''main-content'']"

definition html_abstract_parts :: "node \<Rightarrow> string list" where
  "html_abstract_parts soup =
     take 3
       (fold (\<lambda>sel abstract_parts.
                append_abstracts abstract_parts (map get_text (select soup sel)))
          abstract_selectors [])"

definition leaf_paragraphs :: "node \<Rightarrow> string list" where
  \<comment> \<open>the paragraphs one container adds to \<open>body_parts\<close>: the \<^verbatim>\<open>p\<close> and \<^verbatim>\<open>div\<close>
     below it that have no \<^verbatim>\<open>p\<close> or \<^verbatim>\<open>div\<close> child, when longer than 40\<close>
  "leaf_paragraphs el =
     keep_longer 40
       (map get_text
          [p \<leftarrow> find_all el [''p'', ''div'']. find_all_children p [''p'', ''div''] = []])"

fun scan_containers :: "string list \<Rightarrow> node list \<Rightarrow> string list" where
  \<comment> \<open>the loop over \<^verbatim>\<open>soup.select(sel)\<close>, left by \<^verbatim>\<open>break\<close> once \<open>body_parts\<close> is not
     empty\<close>
  "scan_containers body_parts [] = body_parts"
| "scan_containers body_parts (el # els) =
     (let body_parts1 = body_parts @ leaf_paragraphs el
      in if body_parts1 \<noteq> [] then body_parts1 else scan_containers body_parts1 els)"

fun scan_selectors :: "node \<Rightarrow> string list \<Rightarrow> selector list \<Rightarrow> string list" where
  \<comment> \<open>the loop over the body selectors, left by \<^verbatim>\<open>break\<close> once \<open>body_parts\<close> is not
     empty\<close>
  "scan_selectors soup body_parts [] = body_parts"
| "scan_selectors soup body_parts (sel # sels) =
     (let body_parts1 = scan_containers body_parts (select soup sel)
      in if body_parts1 \<noteq> [] then body_parts1 else scan_selectors soup body_parts1 sels)"

definition html_body_parts :: "node \<Rightarrow> string list" where
  "html_body_parts soup =
     (let body_parts = scan_selectors soup [] body_selectors
      in if body_parts = [] then keep_longer 80 (map get_text (find_all soup [''p'']))
         else body_parts)"

definition extract_html_soup :: "node \<Rightarrow> ExtractedContent" where
  \<comment> \<open>\<^verbatim>\<open>extract_from_html\<close> after the parse\<close>
  "extract_html_soup soup =
     (let abstract_parts = html_abstract_parts soup;
          body_parts = html_body_parts soup;
          abstract0 = join_parts abstract_parts;
          full_text0 = join_parts body_parts
      in \<lparr>abstract = abstract0,
          full_text = (if full_text0 = [] \<and> abstract0 \<noteq> [] then abstract0 else full_text0),
          source = ''crawl''\<rparr>)"

definition extract_from_html :: "(string \<Rightarrow> node) \<Rightarrow> string \<Rightarrow> ExtractedContent" where
  \<comment> \<open>\<open>beautiful_soup\<close> is \<^verbatim>\<open>BeautifulSoup(raw_body, "lxml")\<close>, which builds a tree
     from any text\<close>
  "extract_from_html beautiful_soup raw = extract_html_soup (beautiful_soup raw)"

subsection \<open>extract_content\<close>

record Parsers =
  lxml_fromstring :: parser
  et_fromstring :: parser
  beautiful_soup :: "string \<Rightarrow> node"

definition extract_content :: "Parsers \<Rightarrow> FetchedArticle \<Rightarrow> error + ExtractedContent" where
  "extract_content lib fetched =
     (let ct = py_lower (py_or (content_type fetched) [])
      in if py_in ''xml'' ct \<or> fetched_source fetched = ''api''
         then
           (case extract_from_api_xml_lxml (lxml_fromstring lib) (et_fromstring lib)
                   (raw_body fetched) of
              Inr r \<Rightarrow> Inr r
            | Inl _ \<Rightarrow> extract_from_api_xml (et_fromstring lib) (raw_body fetched))
         else Inr (extract_from_html (beautiful_soup lib) (raw_body fetched)))"

section \<open>main.py\<close>

fun dedupe_loop :: "string set \<Rightarrow> RSSItem list \<Rightarrow> RSSItem list \<Rightarrow> RSSItem list" where
  \<comment> \<open>the loop of \<^verbatim>\<open>dedupe_by_link\<close> with its two variables \<open>seen\<close> and \<open>out\<close>\<close>
  "dedupe_loop seen out [] = out"
| "dedupe_loop seen out (x # xs) =
     (if link x \<notin> seen then dedupe_loop (insert (link x) seen) (out @ [x]) xs
      else dedupe_loop seen out xs)"

definition dedupe_by_link :: "RSSItem list \<Rightarrow> RSSItem list" where
  "dedupe_by_link items = dedupe_loop {} [] items"

text \<open>
  \<^verbatim>\<open>parse_feed_url\<close> and \<^verbatim>\<open>parse_feeds\<close> of rss_parser.py, which use the network: a
  feed that cannot be fetched is skipped with a warning.
\<close>

definition parse_feed_url ::
  "network \<Rightarrow> (string \<Rightarrow> entry list) \<Rightarrow> string \<Rightarrow> int \<Rightarrow> request list
     \<Rightarrow> RSSItem list option \<times> request list" where
  "parse_feed_url requests_get feedparser_entries feed_url timeout log =
     (let req = \<lparr>req_url = feed_url, req_headers = [], req_params = [], req_timeout = timeout\<rparr>
      in case requests_get req of
           RequestException \<Rightarrow> (None, log @ [req])
         | Response st h body \<Rightarrow>
             if raises_for_status st then (None, log @ [req])
             else (Some (parse_feed_content feedparser_entries body), log @ [req]))"

fun parse_feeds ::
  "network \<Rightarrow> (string \<Rightarrow> entry list) \<Rightarrow> string list \<Rightarrow> int \<Rightarrow> request list
     \<Rightarrow> RSSItem list \<times> request list" where
  "parse_feeds requests_get feedparser_entries [] timeout log = ([], log)"
| "parse_feeds requests_get feedparser_entries (url # urls) timeout log =
     (case parse_feed_url requests_get feedparser_entries url timeout log of
        (found, log1) \<Rightarrow>
          (case parse_feeds requests_get feedparser_entries urls timeout log1 of
             (others, log2) \<Rightarrow> ((case found of None \<Rightarrow> [] | Some its \<Rightarrow> its) @ others, log2)))"

definition slice_to :: "'a list \<Rightarrow> int \<Rightarrow> 'a list" where
  \<comment> \<open>\<^verbatim>\<open>xs[:n]\<close>: a negative \<open>n\<close> counts from the end\<close>
  "slice_to xs n = (if 0 \<le> n then take (nat n) xs else take (length xs - nat (- n)) xs)"

record article_row =
  row_title :: string
  row_link :: string
  row_doi :: "string option"
  row_pii :: "string option"
  row_abstract :: string
  row_full_text :: string
  row_source :: string
  row_error :: "string option"

definition skip_row :: "RSSItem \<Rightarrow> string \<Rightarrow> article_row" where
  "skip_row it err =
     \<lparr>row_title = title it, row_link = link it, row_doi = doi it, row_pii = pii it,
      row_abstract = [], row_full_text = [], row_source = ''skip'', row_error = Some err\<rparr>"

fun process_items ::
  "Config \<Rightarrow> network \<Rightarrow> Parsers \<Rightarrow> bool \<Rightarrow> RSSItem list \<Rightarrow> article_row list \<Rightarrow> request list
     \<Rightarrow> error + article_row list \<times> request list" where
  \<comment> \<open>the loop of \<^verbatim>\<open>run\<close> over the items, with its variable \<open>results\<close>\<close>
  "process_items cfg requests_get lib prefer_api [] results log = Inr (results, log)"
| "process_items cfg requests_get lib prefer_api (it # its) results log =
     (if article_id it = None
      then process_items cfg requests_get lib prefer_api its
             (results @ [skip_row it ''no_doi_or_pii'']) log
      else
        (case fetch_article cfg requests_get it prefer_api
                (if ELSEVIER_API_KEY cfg \<noteq> [] then Some (ELSEVIER_API_KEY cfg) else None)
                None (REQUEST_TIMEOUT cfg) log of
           (None, log1) \<Rightarrow>
             process_items cfg requests_get lib prefer_api its
               (results @ [skip_row it ''fetch_failed'']) log1
         | (Some fetched, log1) \<Rightarrow>
             (case extract_content lib fetched of
                Inl e \<Rightarrow> Inl e
              | Inr extracted \<Rightarrow>
                  process_items cfg requests_get lib prefer_api its
                    (results @
                     [\<lparr>row_title = title it, row_link = link it, row_doi = doi it,
                       row_pii = pii it, row_abstract = abstract extracted,
                       row_full_text = full_text extracted, row_source = source extracted,
                       row_error = None\<rparr>])
                    log1)))"

definition run ::
  "Config \<Rightarrow> network \<Rightarrow> (string \<Rightarrow> entry list) \<Rightarrow> Parsers \<Rightarrow> string list \<Rightarrow> int option \<Rightarrow> bool
     \<Rightarrow> error + article_row list \<times> request list" where
  \<comment> \<open>the rows that \<^verbatim>\<open>run\<close> writes to \<^verbatim>\<open>articles.json\<close>, and the requests it made\<close>
  "run cfg requests_get feedparser_entries lib feed_urls limit prefer_api =
     (if feed_urls = [] then Inl SystemExit
      else
        (case parse_feeds requests_get feedparser_entries feed_urls (REQUEST_TIMEOUT cfg) [] of
           (items, log1) \<Rightarrow>
             (let items1 = dedupe_by_link items;
                  items2 = (case limit of None \<Rightarrow> items1 | Some n \<Rightarrow> slice_to items1 n)
              in process_items cfg requests_get lib prefer_api items2 [] log1)))"

section \<open>The abstract candidates as the specification words them\<close>

definition keep_first :: "'a list \<Rightarrow> 'a list" where
  \<comment> \<open>every element once, at the place of its first occurrence\<close>
  "keep_first xs = rev (remdups (rev xs))"


section \<open>Sample inputs\<close>

text \<open>Documents with the trees the parsers build for them, and a parser that knows them.\<close>

definition mixed_xml :: string where
  "mixed_xml = ''<abstract><b>Deep learning</b><i>for science today</i></abstract>''"

definition mixed_doc :: elem where
  "mixed_doc =
     Elem [] ''abstract'' []
       [Elem [] ''b'' ''Deep learning'' [] [], Elem [] ''i'' ''for science today'' [] []] []"

definition short_xml :: string where
  "short_xml = ''<article><abstract><p>A short abstract of thirty chars</p></abstract></article>''"

definition short_doc :: elem where
  "short_doc =
     Elem [] ''article'' []
       [Elem [] ''abstract'' [] [Elem [] ''p'' ''A short abstract of thirty chars'' [] []] []] []"

definition long_xml :: string where
  "long_xml = ''<article><abstract><p>'' @ replicate 600 CHR ''a'' @ ''</p></abstract></article>''"

definition long_doc :: elem where
  "long_doc =
     Elem [] ''article'' []
       [Elem [] ''abstract'' [] [Elem [] ''p'' (replicate 600 CHR ''a'') [] []] []] []"



definition sample_fromstring :: parser where
  "sample_fromstring raw =
     (if raw = mixed_xml then Parsed mixed_doc
      else if raw = short_xml then Parsed short_doc
      else if raw = long_xml then Parsed long_doc
      else ParseError)"


definition abstract_group_soup :: node where
  \<comment> \<open>a \<^verbatim>\<open>div\<close> of class \<^verbatim>\<open>abstract-group\<close> with a text of 30 characters, in the
     \<^verbatim>\<open>html\<close> and \<^verbatim>\<open>body\<close> that the parser puts around it\<close>
  "abstract_group_soup =
     Tag ''[document]'' [] []
       [Tag ''html'' [] []
          [Tag ''body'' [] []
             [Tag ''div'' [''abstract-group''] []
                [NavigableString ''Foo bar baz and some more text'']]]]"

definition abstract_group_html :: string where
  "abstract_group_html = ''<div class=abstract-group>Foo bar baz and some more text</div>''"

definition sample_soup :: "string \<Rightarrow> node" where
  "sample_soup raw =
     (if raw = abstract_group_html then abstract_group_soup
      else Tag ''[document]'' [] [] [])"

definition sample_lib :: Parsers where
  "sample_lib =
     \<lparr>lxml_fromstring = sample_fromstring, et_fromstring = sample_fromstring,
      beautiful_soup = sample_soup\<rparr>"

definition sample_entry :: entry where
  "sample_entry =
     [''title'' \<mapsto> ''An article'',
      ''link'' \<mapsto> ''https://doi.org/10.1016/j.cell.2020.01.001.'',
      ''description'' \<mapsto> ''See also 10.1000/other.42 for details'']"

definition linkless_entry :: entry where
  "linkless_entry = [''title'' \<mapsto> ''No link here'', ''link'' \<mapsto> ''   '']"

definition twin_entry_a :: entry where
  "twin_entry_a =
     [''title'' \<mapsto> ''An article'',
      ''link'' \<mapsto> ''https://www.sciencedirect.com/science/article/pii/S0092867420300012'']"

definition twin_entry_b :: entry where
  \<comment> \<open>a second entry with the link of the first\<close>
  "twin_entry_b =
     [''title'' \<mapsto> ''The same article again'',
      ''link'' \<mapsto> ''https://www.sciencedirect.com/science/article/pii/S0092867420300012'']"

definition twin_feedparser :: "string \<Rightarrow> entry list" where
  \<comment> \<open>a feed with these two entries\<close>
  "twin_feedparser content = [twin_entry_a, twin_entry_b]"

definition linkless_feedparser :: "string \<Rightarrow> entry list" where
  \<comment> \<open>a feed with an entry that has a link and one whose link is blank\<close>
  "linkless_feedparser content = [sample_entry, linkless_entry]"

definition sample_item :: RSSItem where
  "sample_item =
     \<lparr>title = ''An article'',
      link = ''https://www.sciencedirect.com/science/article/pii/S0092867420300012'',
      doi = None, pii = Some ''S0092867420300012'', description = []\<rparr>"

definition twin_item :: RSSItem where
  \<comment> \<open>another item with the link of \<^const>\<open>sample_item\<close>\<close>
  "twin_item = sample_item\<lparr>title := ''The same article again''\<rparr>"

definition sample_cfg :: Config where
  "sample_cfg =
     \<lparr>ELSEVIER_API_KEY = ''secret'',
      ELSEVIER_ARTICLE_BASE = ''https://api.elsevier.com/content/article'',
      SCIENCE_DIRECT_COOKIE = [], REQUEST_TIMEOUT = 30\<rparr>"

definition sample_net :: network where
  \<comment> \<open>the API answers 403, every other address answers 200 with a page\<close>
  "sample_net req =
     (if startswith (req_url req) ''https://api.elsevier.com/'' then Response 403 None []
      else Response 200 (Some ''text/html; charset=utf-8'') ''<html></html>'')"

section \<open>Properties of the extraction pipeline\<close>

subsection \<open>Auxiliary facts\<close>

lemma remdups_snoc: "remdups (ys @ [x]) = remdups [y \<leftarrow> ys. y \<noteq> x] @ [x]"
  by (induction ys) auto

lemma keep_first_Nil: "keep_first [] = []"
  by (simp add: keep_first_def)

lemma keep_first_Cons: "keep_first (x # xs) = x # keep_first [y \<leftarrow> xs. y \<noteq> x]"
  by (simp add: keep_first_def remdups_snoc rev_filter)

lemma distinct_keep_first: "distinct (keep_first xs)"
  by (simp add: keep_first_def)

lemma set_keep_first: "set (keep_first xs) = set xs"
  by (simp add: keep_first_def)







lemma xml_promotion_rule:
  assumes "join_parts (xml_body_parts root) = []"
      and "200 < length (join_parts (xml_abstract_parts root))"
  shows "extract_xml_root root =
           \<lparr>abstract = (if 500 < length (join_parts (xml_abstract_parts root))
                        then take 500 (join_parts (xml_abstract_parts root)) @ ''...''
                        else join_parts (xml_abstract_parts root)),
            full_text = join_parts (xml_abstract_parts root), source = ''api''\<rparr>"
  using assms by (simp add: extract_xml_root_def Let_def)













subsection \<open>The two strategies for structured documents\<close>




lemma sample_fromstring_long: "sample_fromstring long_xml = Parsed long_doc"
  by code_simp

lemma long_doc_lxml:
  "extract_lxml_root long_doc =
     \<lparr>abstract = replicate 600 CHR ''a'', full_text = replicate 600 CHR ''a'', source = ''api''\<rparr>"
  by code_simp

lemma long_doc_xml:
  "extract_xml_root long_doc =
     \<lparr>abstract = replicate 500 CHR ''a'' @ ''...'', full_text = replicate 600 CHR ''a'',
      source = ''api''\<rparr>"
  by code_simp

subsection \<open>The promotion rule of the structured extractors\<close>

text \<open>
  C2: on a document whose only content is an abstract of 600 characters, the tree-walk
  extractor promotes the abstract to the full text and cuts the abstract to 500 characters
  and an ellipsis, as the claim says. The path-query extractor, which
  \<^verbatim>\<open>extract_content\<close> tries first, promotes the abstract but leaves all 600 characters
  in the abstract.
\<close>

theorem lxml_promotion_keeps_long_abstract:
  "sample_fromstring long_xml = Parsed long_doc \<and>
   extract_from_api_xml sample_fromstring long_xml =
     Inr \<lparr>abstract = replicate 500 CHR ''a'' @ ''...'', full_text = replicate 600 CHR ''a'',
          source = ''api''\<rparr> \<and>
   extract_from_api_xml_lxml sample_fromstring sample_fromstring long_xml =
     Inr \<lparr>abstract = replicate 600 CHR ''a'', full_text = replicate 600 CHR ''a'',
          source = ''api''\<rparr> \<and>
   extract_content sample_lib
     \<lparr>fetched_source = ''api'', raw_body = long_xml, content_type = ''application/xml'',
      item = sample_item\<rparr> =
     Inr \<lparr>abstract = replicate 600 CHR ''a'', full_text = replicate 600 CHR ''a'',
          source = ''api''\<rparr>"
  by (simp add: sample_fromstring_long extract_from_api_xml_def extract_from_api_xml_lxml_def
      extract_content_def sample_lib_def long_doc_xml long_doc_lxml Let_def)

subsection \<open>An empty full text\<close>




subsection \<open>Input that is not well-formed\<close>



subsection \<open>The promotion of the HTML extractor\<close>

text \<open>
  C5: when no body paragraph was collected and the collected abstract is not empty, the
  HTML extractor returns the collected abstract, unchanged, as abstract and as full text,
  whatever its length.
\<close>

theorem html_promotion_is_verbatim:
  assumes "join_parts (html_body_parts (soup_of raw)) = []"
      and "join_parts (html_abstract_parts (soup_of raw)) \<noteq> []"
  shows "extract_from_html soup_of raw =
           \<lparr>abstract = join_parts (html_abstract_parts (soup_of raw)),
            full_text = join_parts (html_abstract_parts (soup_of raw)),
            source = ''crawl''\<rparr>"
  using assms by (simp add: extract_from_html_def extract_html_soup_def Let_def)

theorem html_promotion_is_verbatim_witness:
  "join_parts (html_body_parts (sample_soup abstract_group_html)) = [] \<and>
   join_parts (html_abstract_parts (sample_soup abstract_group_html)) =
     ''Foo bar baz and some more text'' \<and>
   ''Foo bar baz and some more text'' \<noteq> [] \<and>
   length ''Foo bar baz and some more text'' = 30 \<and>
   extract_from_html sample_soup abstract_group_html =
     \<lparr>abstract = ''Foo bar baz and some more text'',
      full_text = ''Foo bar baz and some more text'', source = ''crawl''\<rparr>"
proof -
  have b: "join_parts (html_body_parts abstract_group_soup) = []"
    by code_simp
  have a: "join_parts (html_abstract_parts abstract_group_soup) = ''Foo bar baz and some more text''"
    by code_simp
  have b': "join_parts (html_body_parts (sample_soup abstract_group_html)) = []"
    using b by (simp add: sample_soup_def)
  have a': "join_parts (html_abstract_parts (sample_soup abstract_group_html))
              \<noteq> []"
    using a by (simp add: sample_soup_def)
  from html_promotion_is_verbatim [of sample_soup abstract_group_html, OF b' a'] a b show ?thesis
    by (simp add: sample_soup_def)
qed

subsection \<open>The abstract candidates\<close>




subsection \<open>The fetch orchestration\<close>

lemma snd_fetch_via_crawl:
  "snd (fetch_via_crawl cfg net it cookie t log) = log @ [crawl_request cfg it cookie t]"
  by (simp add: fetch_via_crawl_def Let_def split: http_outcome.splits)

lemma fetch_via_api_unavailable:
  "py_strip (opt_str_or key (ELSEVIER_API_KEY cfg)) = [] \<or> article_id it = None \<Longrightarrow>
     fetch_via_api cfg net it key t accept log = (None, log)"
  by (auto simp: fetch_via_api_def Let_def)

lemma snd_fetch_via_api:
  "py_strip (opt_str_or key (ELSEVIER_API_KEY cfg)) \<noteq> [] \<Longrightarrow> article_id it = Some aid \<Longrightarrow>
     snd (fetch_via_api cfg net it key t accept log) =
       log @ [api_request cfg (py_strip (opt_str_or key (ELSEVIER_API_KEY cfg))) aid t accept]"
  by (simp add: fetch_via_api_def Let_def split: http_outcome.splits)

text \<open>
  C6: with \<open>prefer_api\<close> the API channel runs first: its article is returned with no
  further request, and when it returns nothing (no key, no identifier, or a failed
  request) the crawl channel runs next and its outcome is the outcome of the call. Without
  \<open>prefer_api\<close> the call is the crawl channel alone: the only request sent goes to the
  link of the item, and a crawl that fails makes the call return nothing.
\<close>

theorem fetch_article_orchestration:
  "(case fetch_via_api cfg net it key t ''application/xml'' log of
      (Some r, log1) \<Rightarrow> fetch_article cfg net it True key cookie t log = (Some r, log1)
    | (None, log1) \<Rightarrow>
        fetch_article cfg net it True key cookie t log =
          fetch_via_crawl cfg net it cookie t log1 \<and>
        snd (fetch_article cfg net it True key cookie t log) =
          log1 @ [crawl_request cfg it cookie t]) \<and>
   (if py_strip (opt_str_or key (ELSEVIER_API_KEY cfg)) = [] \<or> article_id it = None
    then fetch_via_api cfg net it key t ''application/xml'' log = (None, log)
    else snd (fetch_via_api cfg net it key t ''application/xml'' log) =
           log @ [api_request cfg (py_strip (opt_str_or key (ELSEVIER_API_KEY cfg)))
                    (the (article_id it)) t ''application/xml'']) \<and>
   fetch_article cfg net it False key cookie t log = fetch_via_crawl cfg net it cookie t log \<and>
   snd (fetch_article cfg net it False key cookie t log) = log @ [crawl_request cfg it cookie t] \<and>
   req_url (crawl_request cfg it cookie t) = link it"
proof -
  have api: "case fetch_via_api cfg net it key t ''application/xml'' log of
      (Some r, log1) \<Rightarrow> fetch_article cfg net it True key cookie t log = (Some r, log1)
    | (None, log1) \<Rightarrow>
        fetch_article cfg net it True key cookie t log =
          fetch_via_crawl cfg net it cookie t log1 \<and>
        snd (fetch_article cfg net it True key cookie t log) =
          log1 @ [crawl_request cfg it cookie t]"
    by (simp add: fetch_article_def snd_fetch_via_crawl split: prod.splits option.splits)
  have sent: "if py_strip (opt_str_or key (ELSEVIER_API_KEY cfg)) = [] \<or> article_id it = None
    then fetch_via_api cfg net it key t ''application/xml'' log = (None, log)
    else snd (fetch_via_api cfg net it key t ''application/xml'' log) =
           log @ [api_request cfg (py_strip (opt_str_or key (ELSEVIER_API_KEY cfg)))
                    (the (article_id it)) t ''application/xml'']"
    using fetch_via_api_unavailable [of key cfg it net t "''application/xml''" log]
      snd_fetch_via_api [of key cfg it "the (article_id it)" net t "''application/xml''" log]
    by (cases "article_id it") auto
  have crawl: "fetch_article cfg net it False key cookie t log =
      fetch_via_crawl cfg net it cookie t log"
    by (simp add: fetch_article_def)
  have url: "req_url (crawl_request cfg it cookie t) = link it"
    by (simp add: crawl_request_def Let_def)
  from api sent crawl url show ?thesis
    by (simp add: snd_fetch_via_crawl)
qed

theorem fetch_article_orchestration_witness:
  "fetch_via_api sample_cfg sample_net sample_item None 30 ''application/xml'' [] =
     (None, [api_request sample_cfg ''secret'' (''pii'', ''S0092867420300012'') 30
               ''application/xml'']) \<and>
   fetch_article sample_cfg sample_net sample_item True None None 30 [] =
     (Some \<lparr>fetched_source = ''crawl'', raw_body = ''<html></html>'',
            content_type = ''text/html'', item = sample_item\<rparr>,
      [api_request sample_cfg ''secret'' (''pii'', ''S0092867420300012'') 30 ''application/xml'',
       crawl_request sample_cfg sample_item None 30]) \<and>
   fetch_article sample_cfg sample_net sample_item False None None 30 [] =
     (Some \<lparr>fetched_source = ''crawl'', raw_body = ''<html></html>'',
            content_type = ''text/html'', item = sample_item\<rparr>,
      [crawl_request sample_cfg sample_item None 30]) \<and>
   req_url (crawl_request sample_cfg sample_item None 30) =
     ''https://www.sciencedirect.com/science/article/pii/S0092867420300012''"
proof -
  have a: "fetch_via_api sample_cfg sample_net sample_item None 30 ''application/xml'' [] =
     (None, [api_request sample_cfg ''secret'' (''pii'', ''S0092867420300012'') 30
               ''application/xml''])"
    by code_simp
  have c: "fetch_via_crawl sample_cfg sample_net sample_item None 30 log =
     (Some \<lparr>fetched_source = ''crawl'', raw_body = ''<html></html>'',
            content_type = ''text/html'', item = sample_item\<rparr>,
      log @ [crawl_request sample_cfg sample_item None 30])" for log
    by (simp add: fetch_via_crawl_def Let_def sample_net_def crawl_request_def sample_item_def
        raises_for_status_def header_mime_def py_or_def py_strip_def strip_with_def
        py_isspace_def)
  from fetch_article_orchestration [where cfg = sample_cfg and net = sample_net
      and it = sample_item and key = None and t = 30 and log = "[]" and cookie = None]
  show ?thesis
    by (simp add: a c) (simp add: sample_item_def)
qed

subsection \<open>The DOI of a feed entry\<close>

lemma doi_match_here_head:
  "doi_match_here prev s = Some m \<Longrightarrow> (\<exists>r. m = CHR ''1'' # r) \<and> (\<exists>r. s = CHR ''1'' # r)"
  by (cases s) (auto simp: doi_match_here_def Let_def split: if_splits list.splits)

lemma doi_search_head:
  "doi_search prev s = Some m \<Longrightarrow> (\<exists>r. m = CHR ''1'' # r) \<and> CHR ''1'' \<in> set s"
proof (induction s arbitrary: prev)
  case Nil
  then show ?case using doi_match_here_head [of prev "[]" m] by simp
next
  case (Cons c cs)
  show ?case
  proof (cases "doi_match_here prev (c # cs)")
    case None
    with Cons.prems have "doi_search (Some c) cs = Some m" by simp
    from Cons.IH [OF this] show ?thesis by simp
  next
    case (Some m')
    with Cons.prems have "m' = m" by simp
    with Some doi_match_here_head [of prev "c # cs" m] show ?thesis by auto
  qed
qed

lemma py_rstrip_keeps_head:
  assumes "c \<notin> set chars"
  shows "py_rstrip chars (c # cs) = c # py_rstrip chars cs"
  using assms by (simp add: py_rstrip_def dropWhile_append)

lemma py_rstrip_last:
  assumes "py_rstrip chars s \<noteq> []"
  shows "last (py_rstrip chars s) \<notin> set chars"
proof -
  let ?d = "dropWhile (\<lambda>x. x \<in> set chars) (rev s)"
  from assms have ne: "?d \<noteq> []" by (simp add: py_rstrip_def)
  then have "hd ?d \<notin> set chars" by (rule hd_dropWhile)
  moreover from ne have "last (rev ?d) = hd ?d" by (simp add: last_rev)
  ultimately show ?thesis by (simp add: py_rstrip_def)
qed

lemma extract_doi_from_text_Some:
  assumes "extract_doi_from_text t = Some d"
  shows "d \<noteq> [] \<and> last d \<notin> set ''.,;'' \<and> CHR ''1'' \<in> set t \<and>
         (\<exists>m. doi_search None t = Some m \<and> d = py_rstrip ''.,;'' m)"
proof -
  from assms obtain m where m: "doi_search None t = Some m" and d: "d = py_rstrip ''.,;'' m"
    by (auto simp: extract_doi_from_text_def)
  from doi_search_head [OF m] obtain r where r: "m = CHR ''1'' # r" and t: "CHR ''1'' \<in> set t"
    by blast
  have "py_rstrip ''.,;'' (CHR ''1'' # r) = CHR ''1'' # py_rstrip ''.,;'' r"
    by (rule py_rstrip_keeps_head) simp
  with d r have ne: "d \<noteq> []" by simp
  with d have "last d \<notin> set ''.,;''" using py_rstrip_last [of "''.,;''" m] by simp
  with ne t m d show ?thesis by blast
qed

lemma strip_with_nonempty:
  assumes "c \<in> set s" and "\<not> sp c"
  shows "strip_with sp s \<noteq> []"
proof -
  from assms have "dropWhile sp s \<noteq> []" by auto
  moreover have "\<exists>x \<in> set (dropWhile sp s). \<not> sp x"
    using calculation hd_dropWhile [of sp s] hd_in_set [of "dropWhile sp s"] by blast
  ultimately show ?thesis
    by (auto simp: strip_with_def)
qed

lemma py_or_Nil: "py_or a [] = a"
  by (simp add: py_or_def)

lemma extract_doi_link_first:
  assumes "extract_doi_from_text (get_or_empty e ''link'') = Some d"
  shows "extract_doi e = Some d"
proof -
  from extract_doi_from_text_Some [OF assms] have "d \<noteq> []" by simp
  with assms show ?thesis
    by (simp add: extract_doi_def Let_def py_or_Nil truthy_def)
qed

text \<open>
  C8: a DOI matched in the link of an entry is the DOI of the entry and of the item parsed
  from it, whatever the description holds; and a DOI taken from any text is the matched
  token without the characters \<^verbatim>\<open>.\<close>, \<^verbatim>\<open>,\<close> and \<^verbatim>\<open>;\<close> at its end: it is not empty and
  does not end in one of them.
\<close>

theorem doi_prefers_link_and_is_trimmed:
  assumes "extract_doi_from_text (get_or_empty e ''link'') = Some d"
      and "extract_doi_from_text t = Some d'"
  shows "extract_doi e = Some d \<and>
         map doi (parse_entries [e]) = [Some d] \<and>
         d' \<noteq> [] \<and> last d' \<notin> set ''.,;'' \<and>
         (\<exists>m. doi_search None t = Some m \<and> d' = py_rstrip ''.,;'' m)"
proof -
  have e: "extract_doi e = Some d"
    using assms(1) by (rule extract_doi_link_first)
  from extract_doi_from_text_Some [OF assms(1)]
  have "d \<noteq> []" and "CHR ''1'' \<in> set (get_or_empty e ''link'')" by simp_all
  then have "py_strip (get_or_empty e ''link'') \<noteq> []"
    unfolding py_strip_def by (intro strip_with_nonempty [of "CHR ''1''"]) (simp_all add: py_isspace_def)
  with e \<open>d \<noteq> []\<close> have "map doi (parse_entries [e]) = [Some d]"
    by (simp add: Let_def opt_or_def truthy_def)
  with e extract_doi_from_text_Some [OF assms(2)] show ?thesis by blast
qed

theorem doi_prefers_link_and_is_trimmed_witness:
  "extract_doi_from_text (get_or_empty sample_entry ''link'') = Some ''10.1016/j.cell.2020.01.001'' \<and>
   extract_doi_from_text (get_or_empty sample_entry ''description'') = Some ''10.1000/other.42'' \<and>
   doi_search None (get_or_empty sample_entry ''description'') = Some ''10.1000/other.42'' \<and>
   extract_doi sample_entry = Some ''10.1016/j.cell.2020.01.001'' \<and>
   map doi (parse_entries [sample_entry]) = [Some ''10.1016/j.cell.2020.01.001'']"
proof -
  have l: "extract_doi_from_text (get_or_empty sample_entry ''link'') =
             Some ''10.1016/j.cell.2020.01.001''"
    by code_simp
  have s: "doi_search None (get_or_empty sample_entry ''description'') = Some ''10.1000/other.42''"
    by code_simp
  have t: "extract_doi_from_text (get_or_empty sample_entry ''description'') =
             Some ''10.1000/other.42''"
    by code_simp
  from doi_prefers_link_and_is_trimmed [OF l t] l s t show ?thesis by simp
qed

subsection \<open>Deduplication by link\<close>

lemma dedupe_loop_out: "dedupe_loop seen out xs = out @ dedupe_loop seen [] xs"
proof (induction xs arbitrary: seen out)
  case Nil
  show ?case by simp
next
  case (Cons x xs)
  show ?case
  proof (cases "link x \<in> seen")
    case True
    then show ?thesis using Cons.IH [of seen out] by simp
  next
    case False
    then show ?thesis
      using Cons.IH [of "insert (link x) seen" "out @ [x]"]
        Cons.IH [of "insert (link x) seen" "[x]"]
      by simp
  qed
qed

lemma dedupe_loop_seen:
  "dedupe_loop (A \<union> B) [] xs = dedupe_loop B [] [x \<leftarrow> xs. link x \<notin> A]"
proof (induction xs arbitrary: B)
  case Nil
  show ?case by simp
next
  case (Cons x xs)
  show ?case
  proof (cases "link x \<in> A \<or> link x \<in> B")
    case True
    then show ?thesis using Cons.IH [of B] by auto
  next
    case False
    have "dedupe_loop (A \<union> B) [] (x # xs) = [x] @ dedupe_loop (A \<union> insert (link x) B) [] xs"
      using False dedupe_loop_out [of "insert (link x) (A \<union> B)" "[x]" xs] by simp
    also have "\<dots> = [x] @ dedupe_loop (insert (link x) B) [] [y \<leftarrow> xs. link y \<notin> A]"
      by (simp only: Cons.IH)
    also have "\<dots> = dedupe_loop B [] [y \<leftarrow> x # xs. link y \<notin> A]"
      using False dedupe_loop_out [of "insert (link x) B" "[x]" "[y \<leftarrow> xs. link y \<notin> A]"]
      by simp
    finally show ?thesis .
  qed
qed

lemma dedupe_by_link_Nil: "dedupe_by_link [] = []"
  by (simp add: dedupe_by_link_def)

lemma dedupe_by_link_Cons:
  "dedupe_by_link (x # xs) = x # dedupe_by_link [y \<leftarrow> xs. link y \<noteq> link x]"
proof -
  have "dedupe_by_link (x # xs) = [x] @ dedupe_loop ({link x} \<union> {}) [] xs"
    using dedupe_loop_out [of "{link x}" "[x]" xs] by (simp add: dedupe_by_link_def)
  also have "\<dots> = [x] @ dedupe_loop {} [] [y \<leftarrow> xs. link y \<notin> {link x}]"
    by (simp only: dedupe_loop_seen)
  finally show ?thesis by (simp add: dedupe_by_link_def)
qed

lemma map_link_dedupe_by_link:
  "map link (dedupe_by_link xs) = keep_first (map link xs)"
proof (induction xs rule: length_induct)
  case (1 xs)
  show ?case
  proof (cases xs)
    case Nil
    then show ?thesis by (simp add: dedupe_by_link_Nil keep_first_Nil)
  next
    case (Cons x ys)
    have "length [y \<leftarrow> ys. link y \<noteq> link x] < length xs"
      using Cons by (simp add: le_imp_less_Suc)
    with 1 have "map link (dedupe_by_link [y \<leftarrow> ys. link y \<noteq> link x]) =
                   keep_first (map link [y \<leftarrow> ys. link y \<noteq> link x])"
      by blast
    with Cons show ?thesis
      by (simp add: dedupe_by_link_Cons keep_first_Cons filter_map comp_def)
  qed
qed

lemma find_filter_implied:
  assumes "\<And>z. P z \<Longrightarrow> Q z"
  shows "List.find P [z \<leftarrow> xs. Q z] = List.find P xs"
  using assms by (induction xs) auto

lemma find_Some_member: "List.find P xs = Some y \<Longrightarrow> y \<in> set xs"
  by (induction xs) (auto split: if_splits)

lemma dedupe_by_link_first:
  "y \<in> set (dedupe_by_link xs) \<Longrightarrow> List.find (\<lambda>x. link x = link y) xs = Some y"
proof (induction xs rule: length_induct)
  case (1 xs)
  show ?case
  proof (cases xs)
    case Nil
    with 1 show ?thesis by (simp add: dedupe_by_link_Nil)
  next
    case (Cons x ys)
    show ?thesis
    proof (cases "y = x")
      case True
      with Cons show ?thesis by simp
    next
      case False
      let ?zs = "[z \<leftarrow> ys. link z \<noteq> link x]"
      from False 1(2) Cons have y: "y \<in> set (dedupe_by_link ?zs)"
        by (simp add: dedupe_by_link_Cons)
      have "length ?zs < length xs"
        using Cons by (simp add: le_imp_less_Suc)
      with 1(1) y have f: "List.find (\<lambda>z. link z = link y) ?zs = Some y" by blast
      then have "y \<in> set ?zs" by (rule find_Some_member)
      then have ne: "link y \<noteq> link x" by simp
      then have "List.find (\<lambda>z. link z = link y) ?zs = List.find (\<lambda>z. link z = link y) ys"
        by (intro find_filter_implied) auto
      with f ne Cons show ?thesis by auto
    qed
  qed
qed

lemma process_items_links:
  "process_items cfg net lib p its results log = Inr (rows, sent) \<Longrightarrow>
     map row_link rows = map row_link results @ map link its"
proof (induction its arbitrary: results log)
  case Nil
  then show ?case by simp
next
  case (Cons it its)
  show ?case
  proof (cases "article_id it = None")
    case True
    with Cons.prems
    have "process_items cfg net lib p its (results @ [skip_row it ''no_doi_or_pii'']) log =
            Inr (rows, sent)"
      by simp
    from Cons.IH [OF this] show ?thesis by (simp add: skip_row_def)
  next
    case False
    obtain fetched log1 where f: "fetch_article cfg net it p
        (if ELSEVIER_API_KEY cfg \<noteq> [] then Some (ELSEVIER_API_KEY cfg) else None)
        None (REQUEST_TIMEOUT cfg) log = (fetched, log1)"
      by (cases "fetch_article cfg net it p
        (if ELSEVIER_API_KEY cfg \<noteq> [] then Some (ELSEVIER_API_KEY cfg) else None)
        None (REQUEST_TIMEOUT cfg) log") auto
    show ?thesis
    proof (cases fetched)
      case None
      with Cons.prems False f
      have "process_items cfg net lib p its (results @ [skip_row it ''fetch_failed'']) log1 =
              Inr (rows, sent)"
        by simp
      from Cons.IH [OF this] show ?thesis by (simp add: skip_row_def)
    next
      case (Some fa)
      show ?thesis
      proof (cases "extract_content lib fa")
        case (Inl e)
        with Cons.prems False f Some show ?thesis by simp
      next
        case (Inr extracted)
        with Cons.prems False f Some
        have "process_items cfg net lib p its
           (results @
            [\<lparr>row_title = title it, row_link = link it, row_doi = doi it, row_pii = pii it,
              row_abstract = abstract extracted, row_full_text = full_text extracted,
              row_source = source extracted, row_error = None\<rparr>]) log1 = Inr (rows, sent)"
          by simp
        from Cons.IH [OF this] show ?thesis by simp
      qed
    qed
  qed
qed

text \<open>
  C9: \<^verbatim>\<open>dedupe_by_link\<close> keeps, for every link, the first item that has it: the links of
  its result are the links of the input, each once, in the order of their first
  occurrence, and every kept item is the first item of the input with its link. Two items
  with one link give one item. The rows that \<^verbatim>\<open>run\<close> writes have the links of the
  deduplicated items, cut to the limit.
\<close>

theorem dedupe_by_link_keeps_first:
  "map link (dedupe_by_link items) = keep_first (map link items) \<and>
   distinct (map link (dedupe_by_link items)) \<and>
   (\<forall>y \<in> set (dedupe_by_link items). List.find (\<lambda>x. link x = link y) items = Some y) \<and>
   (link a = link b \<longrightarrow> dedupe_by_link [a, b] = [a]) \<and>
   (run cfg net fp lib feed_urls limit p = Inr (rows, sent) \<longrightarrow>
      map row_link rows =
        map link
          (let items1 = dedupe_by_link (fst (parse_feeds net fp feed_urls (REQUEST_TIMEOUT cfg) []))
           in case limit of None \<Rightarrow> items1 | Some n \<Rightarrow> slice_to items1 n))"
proof -
  have run: "map row_link rows =
        map link
          (let items1 = dedupe_by_link (fst (parse_feeds net fp feed_urls (REQUEST_TIMEOUT cfg) []))
           in case limit of None \<Rightarrow> items1 | Some n \<Rightarrow> slice_to items1 n)"
    if r: "run cfg net fp lib feed_urls limit p = Inr (rows, sent)"
  proof -
    obtain found log1 where pf:
      "parse_feeds net fp feed_urls (REQUEST_TIMEOUT cfg) [] = (found, log1)"
      by (cases "parse_feeds net fp feed_urls (REQUEST_TIMEOUT cfg) []") auto
    let ?its = "case limit of None \<Rightarrow> dedupe_by_link found
                | Some n \<Rightarrow> slice_to (dedupe_by_link found) n"
    from r pf have "process_items cfg net lib p ?its [] log1 = Inr (rows, sent)"
      by (simp add: run_def Let_def split: if_splits)
    from process_items_links [OF this] show ?thesis by (simp add: pf Let_def)
  qed
  have two: "dedupe_by_link [a, b] = [a]" if "link a = link b"
    using that by (simp add: dedupe_by_link_def)
  from run two show ?thesis
    by (simp add: map_link_dedupe_by_link distinct_keep_first dedupe_by_link_first)
qed

theorem dedupe_by_link_keeps_first_witness:
  "link sample_item = link twin_item \<and>
   dedupe_by_link [sample_item, twin_item] = [sample_item] \<and>
   List.find (\<lambda>x. link x = link sample_item) [sample_item, twin_item] = Some sample_item \<and>
   map link (fst (parse_feeds sample_net twin_feedparser [''https://rss.sciencedirect.com/feed'']
                    (REQUEST_TIMEOUT sample_cfg) [])) =
     [''https://www.sciencedirect.com/science/article/pii/S0092867420300012'',
      ''https://www.sciencedirect.com/science/article/pii/S0092867420300012''] \<and>
   run sample_cfg sample_net twin_feedparser sample_lib [''https://rss.sciencedirect.com/feed'']
     None True =
     Inr ([\<lparr>row_title = ''An article'',
            row_link = ''https://www.sciencedirect.com/science/article/pii/S0092867420300012'',
            row_doi = None, row_pii = Some ''S0092867420300012'', row_abstract = [],
            row_full_text = [], row_source = ''crawl'', row_error = None\<rparr>],
          [\<lparr>req_url = ''https://rss.sciencedirect.com/feed'', req_headers = [],
            req_params = [], req_timeout = 30\<rparr>,
           api_request sample_cfg ''secret'' (''pii'', ''S0092867420300012'') 30
             ''application/xml'',
           crawl_request sample_cfg sample_item None 30])"
proof -
  have l: "link sample_item = link twin_item"
    by (simp add: twin_item_def)
  have f: "map link (fst (parse_feeds sample_net twin_feedparser
                            [''https://rss.sciencedirect.com/feed''] (REQUEST_TIMEOUT sample_cfg) [])) =
     [''https://www.sciencedirect.com/science/article/pii/S0092867420300012'',
      ''https://www.sciencedirect.com/science/article/pii/S0092867420300012'']"
    by code_simp
  have r: "run sample_cfg sample_net twin_feedparser sample_lib
     [''https://rss.sciencedirect.com/feed''] None True =
     Inr ([\<lparr>row_title = ''An article'',
            row_link = ''https://www.sciencedirect.com/science/article/pii/S0092867420300012'',
            row_doi = None, row_pii = Some ''S0092867420300012'', row_abstract = [],
            row_full_text = [], row_source = ''crawl'', row_error = None\<rparr>],
          [\<lparr>req_url = ''https://rss.sciencedirect.com/feed'', req_headers = [],
            req_params = [], req_timeout = 30\<rparr>,
           api_request sample_cfg ''secret'' (''pii'', ''S0092867420300012'') 30
             ''application/xml'',
           crawl_request sample_cfg sample_item None 30])"
    by code_simp
  from dedupe_by_link_keeps_first [of "[sample_item, twin_item]" sample_item twin_item] l
  have "dedupe_by_link [sample_item, twin_item] = [sample_item] \<and>
        List.find (\<lambda>x. link x = link sample_item) [sample_item, twin_item] = Some sample_item"
    by simp
  with l f r show ?thesis by simp
qed

subsection \<open>Parsed items have a link\<close>

lemma link_parse_entries:
  "map link (parse_entries es) = [l \<leftarrow> map (\<lambda>e. py_strip (get_or_empty e ''link'')) es. l \<noteq> []]"
  by (induction es) (simp_all add: Let_def)

text \<open>
  C10: the links of the items that \<^verbatim>\<open>parse_feed_content\<close> returns are the stripped links
  of the entries, in order, without the empty ones: an entry whose link is missing or
  blank gives no item, and no item has an empty link.
\<close>

theorem parsed_items_have_links:
  "map link (parse_feed_content fp content) =
     [l \<leftarrow> map (\<lambda>e. py_strip (get_or_empty e ''link'')) (fp content). l \<noteq> []] \<and>
   (\<forall>it \<in> set (parse_feed_content fp content). link it \<noteq> [])"
proof -
  have m: "map link (parse_feed_content fp content) =
     [l \<leftarrow> map (\<lambda>e. py_strip (get_or_empty e ''link'')) (fp content). l \<noteq> []]"
    by (simp add: parse_feed_content_def link_parse_entries)
  have "link it \<noteq> []" if "it \<in> set (parse_feed_content fp content)" for it
  proof -
    from that have "link it \<in> set (map link (parse_feed_content fp content))" by simp
    then show ?thesis unfolding m by simp
  qed
  with m show ?thesis by blast
qed

theorem parsed_items_have_links_witness:
  "map (\<lambda>e. py_strip (get_or_empty e ''link'')) (linkless_feedparser ''<rss></rss>'') =
     [''https://doi.org/10.1016/j.cell.2020.01.001.'', []] \<and>
   parse_feed_content linkless_feedparser ''<rss></rss>'' =
     [\<lparr>title = ''An article'', link = ''https://doi.org/10.1016/j.cell.2020.01.001.'',
       doi = Some ''10.1016/j.cell.2020.01.001'', pii = None,
       description = ''See also 10.1000/other.42 for details''\<rparr>] \<and>
   map link (parse_feed_content linkless_feedparser ''<rss></rss>'') =
     [''https://doi.org/10.1016/j.cell.2020.01.001.'']"
proof -
  have e: "map (\<lambda>e. py_strip (get_or_empty e ''link'')) (linkless_feedparser ''<rss></rss>'') =
     [''https://doi.org/10.1016/j.cell.2020.01.001.'', []]"
    by code_simp
  have p: "parse_feed_content linkless_feedparser ''<rss></rss>'' =
     [\<lparr>title = ''An article'', link = ''https://doi.org/10.1016/j.cell.2020.01.001.'',
       doi = Some ''10.1016/j.cell.2020.01.001'', pii = None,
       description = ''See also 10.1000/other.42 for details''\<rparr>]"
    by code_simp
  from parsed_items_have_links [of linkless_feedparser "''<rss></rss>''"] e p
  show ?thesis by simp
qed

end
